theory Spec2Isabelle
  imports Complex_Main "HOL-Library.Word"
begin

unbundle bit_operations_syntax

section \<open>The BIOS device of the 8086 emulator (BIOS.ts)\<close>

text \<open>
  The theory embeds interrupt handlers that \<^verbatim>\<open>BIOS.ts\<close> attaches to the CPU: of INT 10h
  (video) the services AH=0, 2, 3, 5, 0Eh and 11h, of INT 13h (disk) AH=0 and 2, of
  INT 15h AH=86h (wait), and of INT 16h (keyboard) AH=0, 1 and 10h, with the key
  listeners of the host. Every handler becomes a function from the machine state to the
  next one; a handler that can raise a JavaScript exception returns a sum, \<open>Inl\<close> being
  the exception.
\<close>

subsection \<open>Registers\<close>

type_synonym u8 = "8 word"
type_synonym u16 = "16 word"

text \<open>
  Modelled from the spec: the register file. The class behind \<^verbatim>\<open>this.regs\<close> is not among
  the sources; the spec describes it as one byte array with coherent views, the byte
  aliases AL/AH, CL/CH, DL/DH, BL/BH being the low and high octets of AX, CX, DX, BX.
  The record holds the registers that the BIOS handlers touch, byte by byte, and the
  two status flags they write (1 is \<open>True\<close>).
\<close>

record status =
  cf :: bool
  zf :: bool

record X86Regs =
  al :: u8
  ah :: u8
  bl :: u8
  bh :: u8
  cl :: u8
  ch :: u8
  dl :: u8
  dh :: u8
  bp :: u16
  es :: u16
  status :: status

text \<open>
  Modelled from the spec: the 16-bit views AX, BX, CX, DX of the byte pairs (\<open>reg16\<close>
  joins the high and the low octet), the write to AX and the writes to the two flags.
\<close>

definition reg16 :: "u8 \<Rightarrow> u8 \<Rightarrow> u16" where
  "reg16 hi lo = push_bit 8 (ucast hi) OR ucast lo"

definition ax :: "X86Regs \<Rightarrow> u16" where
  "ax r = reg16 (ah r) (al r)"

definition bx :: "X86Regs \<Rightarrow> u16" where
  "bx r = reg16 (bh r) (bl r)"

definition cx :: "X86Regs \<Rightarrow> u16" where
  "cx r = reg16 (ch r) (cl r)"

definition dx :: "X86Regs \<Rightarrow> u16" where
  "dx r = reg16 (dh r) (dl r)"

definition set_ax :: "u16 \<Rightarrow> X86Regs \<Rightarrow> X86Regs" where
  "set_ax v r = r\<lparr>al := ucast v, ah := ucast (drop_bit 8 v)\<rparr>"

definition set_cf :: "bool \<Rightarrow> X86Regs \<Rightarrow> X86Regs" where
  "set_cf b r = r\<lparr>status := (status r)\<lparr>cf := b\<rparr>\<rparr>"

definition set_zf :: "bool \<Rightarrow> X86Regs \<Rightarrow> X86Regs" where
  "set_zf b r = r\<lparr>status := (status r)\<lparr>zf := b\<rparr>\<rparr>"

text \<open>
  Modelled from the spec: \<^verbatim>\<open>cpu.getMemAddress(sreg, reg)\<close>. Segment:offset resolves to the
  linear address \<open>(segment << 4) + offset\<close>, wrapping modulo \<open>0x100000\<close>.
\<close>

definition getMemAddress :: "u16 \<Rightarrow> u16 \<Rightarrow> int" where
  "getMemAddress sreg reg = (uint sreg * 16 + uint reg) mod 0x100000"

subsection \<open>Exceptions\<close>

datatype js_error =
  TypeError \<comment> \<open>a property of \<^verbatim>\<open>undefined\<close> or \<^verbatim>\<open>null\<close> is read\<close>
  | RangeError \<comment> \<open>\<^verbatim>\<open>Buffer.copy\<close> is given a negative index\<close>
  | UndefinedRegisterValue \<comment> \<open>\<^verbatim>\<open>undefined\<close> is stored in a register, which the model does not follow\<close>

subsection \<open>Drives\<close>

text \<open>The geometry of a drive; \<^verbatim>\<open>init\<close> is the only place that writes one (512, 18, 2).\<close>

record drive_info =
  sector :: nat
  sectors :: nat
  heads :: nat

record BIOSFloppyDrive =
  buffer :: "u8 list option"
  track :: int
  info :: drive_info

subsection \<open>Screen and VGA\<close>

text \<open>
  The presets \<^verbatim>\<open>VGA_TEXT_MODES_PRESET[..]\<close> and \<^verbatim>\<open>VGA_GRAPHICS_MODES_PRESET[..]\<close> are constants
  of a file that is not among the sources; each is a constructor here.
\<close>

datatype vga_preset =
  TEXT_40x25 | TEXT_80x25 | TEXT_80x50
  | GRAPHICS_320x200x4 | GRAPHICS_640x480x2 | GRAPHICS_640x480x16 | GRAPHICS_320x200x256

fun is_text_preset :: "vga_preset \<Rightarrow> bool" where
  "is_text_preset TEXT_40x25 = True"
| "is_text_preset TEXT_80x25 = True"
| "is_text_preset TEXT_80x50 = True"
| "is_text_preset _ = False"

text \<open>
  \<^verbatim>\<open>new VideoMode(code, w, h, vgaPreset, pages)\<close>. The fields \<^verbatim>\<open>code\<close>, \<^verbatim>\<open>w\<close>, \<^verbatim>\<open>h\<close> are
  written \<open>mode_code\<close>, \<open>mode_w\<close>, \<open>mode_h\<close>, and the fields \<^verbatim>\<open>x\<close>, \<^verbatim>\<open>y\<close> of \<^verbatim>\<open>Vec2D\<close> are
  written \<open>vec_x\<close>, \<open>vec_y\<close>, to keep the one-letter names free for variables.
\<close>

record VideoMode =
  mode_code :: nat
  mode_w :: int
  mode_h :: int
  vgaPreset :: vga_preset
  pages :: nat

record Vec2D =
  vec_x :: int
  vec_y :: int

record ScreenState =
  page :: nat
  mode :: "VideoMode option"

text \<open>
  Modelled from the spec: the VGA device (\<^verbatim>\<open>VGA.ts\<close> and \<^verbatim>\<open>VideoMode.ts\<close> are not among the
  sources, only the BIOS's calls into them). Its state is the text-mode flag, the text
  cursor, the loaded preset, the width of the screen in pixels, the text frame buffer as
  a store of cells \<open>(char, attribute)\<close> addressed by page, column and row, and the bytes
  of graphics memory by address.
\<close>

record VGA =
  textMode :: bool
  cursorLocation :: Vec2D
  loadedPreset :: "vga_preset option"
  pixelScreenSize_w :: int
  textCells :: "nat \<Rightarrow> int \<Rightarrow> int \<Rightarrow> (u8 \<times> u8) option"
  graphicsMem :: "int \<Rightarrow> u8 option"

text \<open>Modelled from the spec: \<^verbatim>\<open>vga.getTextCursorLocation()\<close> reads the stored position.\<close>

definition getTextCursorLocation :: "VGA \<Rightarrow> Vec2D" where
  "getTextCursorLocation v = cursorLocation v"

text \<open>Modelled from the spec: \<^verbatim>\<open>vga.setCursorLocation(vec)\<close> stores the position.\<close>

definition setCursorLocation :: "Vec2D \<Rightarrow> VGA \<Rightarrow> VGA" where
  "setCursorLocation c v = v\<lparr>cursorLocation := c\<rparr>"

text \<open>
  Modelled from the spec: \<^verbatim>\<open>vga.loadModePreset(preset)\<close> records the preset, and a text
  preset puts the device into text mode.
\<close>

definition loadModePreset :: "vga_preset \<Rightarrow> VGA \<Rightarrow> VGA" where
  "loadModePreset p v = v\<lparr>loadedPreset := Some p, textMode := is_text_preset p\<rparr>"

text \<open>
  Modelled from the spec: \<^verbatim>\<open>mode.write(memIO, character, color, x, y, page)\<close> of
  \<^verbatim>\<open>VideoMode\<close> stores the cell \<open>(char, attribute)\<close> of the page at column \<open>x\<close>, row \<open>y\<close>.
\<close>

definition VideoMode_write :: "u8 \<Rightarrow> u8 \<Rightarrow> int \<Rightarrow> int \<Rightarrow> nat \<Rightarrow> VGA \<Rightarrow> VGA" where
  "VideoMode_write character color col row pg v =
     v\<lparr>textCells :=
         (textCells v)
           (pg := (textCells v pg)(col := (textCells v pg col)(row \<mapsto> (character, color))))\<rparr>"

text \<open>
  Modelled from the spec: \<^verbatim>\<open>cpu.memIO.write[0x1](value, address)\<close>, as the graphics
  character writer uses it, stores a byte of the memory that is mapped to the VGA device.
\<close>

definition memIO_write8 :: "u8 \<Rightarrow> int \<Rightarrow> VGA \<Rightarrow> VGA" where
  "memIO_write8 val addr v = v\<lparr>graphicsMem := (graphicsMem v)(addr \<mapsto> val)\<rparr>"

subsection \<open>Keyboard state\<close>

type_synonym KeymapTable = "nat \<Rightarrow> u16 list option"

text \<open>
  The closure that \<^verbatim>\<open>keyListener\<close> stores in \<^verbatim>\<open>keymap.callback\<close> differs between the two
  blocking services only in the table it hands to \<^verbatim>\<open>readKeyState\<close> (\<open>None\<close> is \<^verbatim>\<open>null\<close>).
\<close>

datatype key_callback = KeyListenerCallback "KeymapTable option"

record keymap =
  caps :: bool
  ctrl :: bool
  alt :: bool
  shift :: bool
  key :: "nat option"
  callback :: "key_callback option"

subsection \<open>The machine\<close>

text \<open>
  The callback that INT 15h hands to \<^verbatim>\<open>setTimeout\<close>; the host's pending timers are a list
  of delays in milliseconds with their callbacks.
\<close>

datatype timer_callback = WaitDone

datatype mode_arg = ModeCode u8 | ModeObject VideoMode

record machine =
  regs :: X86Regs
  pause :: bool
  mem :: "u8 list"
  device :: "u8 list option"
  drives :: "u8 \<Rightarrow> BIOSFloppyDrive option"
  screen :: ScreenState
  vga :: VGA
  keymap :: keymap
  timers :: "(rat \<times> timer_callback) list"
  warnings :: "mode_arg list"

text \<open>
  Constants and helpers of files that are not among the sources, taken as parameters:
  the two scan-code tables, the rows of the 8x8 font and \<^verbatim>\<open>vga.scrollTextUp\<close>.
\<close>

record x86_constants =
  SCAN_CODES_TABLE :: KeymapTable
  AT2_SCAN_CODES_QWERTY_PRESSED :: KeymapTable
  VGA_8X8_FONT_data :: "int \<Rightarrow> u8"
  scrollTextUp :: "VGA \<Rightarrow> VGA"

subsection \<open>INT 13h: disk\<close>

text \<open>\<^verbatim>\<open>BIOS.init\<close>: the one drive is keyed by the boot value of DL and has no buffer yet.\<close>

definition init_drives :: "u8 \<Rightarrow> (u8 \<Rightarrow> BIOSFloppyDrive option)" where
  "init_drives boot_dl =
     Map.empty(boot_dl \<mapsto> \<lparr>buffer = None, track = 0,
                             info = \<lparr>sector = 512, sectors = 18, heads = 2\<rparr>\<rparr>)"

text \<open>AH=0, reset floppy drive.\<close>

definition int13_reset :: "machine \<Rightarrow> machine" where
  "int13_reset s =
     (case drives s (dl (regs s)) of
        Some drive \<Rightarrow> s\<lparr>regs := set_cf False ((regs s)\<lparr>ah := 0x0\<rparr>)\<rparr>
      | None \<Rightarrow> s\<lparr>regs := set_cf True ((regs s)\<lparr>ah := 0x6\<rparr>)\<rparr>)"

text \<open>
  \<^verbatim>\<open>Buffer.copy(target, targetStart, sourceStart, sourceEnd)\<close> of the \<^verbatim>\<open>buffer\<close> package, a
  library outside the repository, after its documented contract: the bytes
  \<open>sourceStart ..< sourceEnd\<close> of the source (as far as the source has them) replace the
  bytes of the target from \<open>targetStart\<close> on, cut to what fits into the target; a
  negative index is a \<^verbatim>\<open>RangeError\<close>. The target keeps its length. The implementations
  of the library differ at two edges, and the sources do not say which one runs: for a
  source range that starts after the end of the source, the package for browsers copies
  nothing, as here, and the one built into Node raises a \<^verbatim>\<open>RangeError\<close>; for a negative
  \<open>sourceStart\<close> on an empty source the package for browsers copies nothing, and here and
  in Node it is a \<^verbatim>\<open>RangeError\<close>. The properties below are stated where the
  implementations agree.
\<close>

definition Buffer_copy :: "u8 list \<Rightarrow> u8 list \<Rightarrow> int \<Rightarrow> int \<Rightarrow> int \<Rightarrow> js_error + u8 list" where
  "Buffer_copy source target targetStart sourceStart sourceEnd =
     (if targetStart < 0 \<or> sourceStart < 0 \<or> sourceEnd < 0 then Inl RangeError
      else
        let chunk = take (nat (sourceEnd - sourceStart)) (drop (nat sourceStart) source);
            fitted = take (length target - nat targetStart) chunk
        in Inr (take (nat targetStart) target @ fitted
                @ drop (nat targetStart + length fitted) target))"

text \<open>
  The loop \<^verbatim>\<open>for (let i = 0; i < regs.al; ++i)\<close> of the read service, from iteration \<open>i\<close>
  on. The target \<^verbatim>\<open>Buffer.from(cpu.mem.buffer)\<close> shares its bytes with the CPU memory, so
  the copy is a write to \<open>mem\<close>. The result is the memory and the flag \<^verbatim>\<open>error\<close>.
\<close>

function copy_sectors ::
  "nat \<Rightarrow> nat \<Rightarrow> int \<Rightarrow> int \<Rightarrow> int \<Rightarrow> u8 list \<Rightarrow> u8 list \<Rightarrow> js_error + (u8 list \<times> bool)" where
  "copy_sectors i n src dest sectorSize buf m =
     (if i < n then
        let offset = int i * sectorSize in
        if dest + offset + sectorSize > int (length m) then Inr (m, True)
        else
          (case Buffer_copy buf m (dest + offset) (src + offset)
                  (min (src + offset + sectorSize) (int (length buf))) of
             Inl e \<Rightarrow> Inl e
           | Inr m' \<Rightarrow>
               if src + offset + sectorSize > int (length buf) then Inr (m', True)
               else copy_sectors (i + 1) n src dest sectorSize buf m')
      else Inr (m, False))"
  by pat_completeness auto
termination
  by (relation "measure (\<lambda>(i, n, src, dest, sectorSize, buf, m). n - i)") auto

declare copy_sectors.simps [simp del]

text \<open>The CHS decoding of the read service, as its local constants.\<close>

definition read_cylinder :: "X86Regs \<Rightarrow> u16" where
  "read_cylinder r = drop_bit 8 (cx r AND 0xff00) OR push_bit 2 (cx r AND 0xc0)"

definition read_sector :: "X86Regs \<Rightarrow> u8" where
  "read_sector r = cl r AND 0x3f"

definition read_src :: "X86Regs \<Rightarrow> BIOSFloppyDrive \<Rightarrow> int" where
  "read_src r drive =
     ((uint (read_cylinder r) * int (heads (info drive)) + uint (dh r))
          * int (sectors (info drive))
        + uint (read_sector r) - 0x1) * int (sector (info drive))"

definition read_dest :: "X86Regs \<Rightarrow> int" where
  "read_dest r = getMemAddress (es r) (bx r)"

text \<open>
  \<^verbatim>\<open>if (!drive.buffer) drive.buffer = cpu.device\<close>: the buffer that a read of the drive
  uses, the boot medium when the drive has none of its own.
\<close>

definition drive_medium :: "machine \<Rightarrow> BIOSFloppyDrive \<Rightarrow> u8 list option" where
  "drive_medium s drive = (if buffer drive = None then device s else buffer drive)"

text \<open>
  AH=2, read from floppy drive. A drive that \<^verbatim>\<open>drives[regs.dl]\<close> does not hold is
  \<^verbatim>\<open>undefined\<close>, and reading \<^verbatim>\<open>drive.info\<close> raises a \<^verbatim>\<open>TypeError\<close>.
\<close>

definition int13_read :: "machine \<Rightarrow> js_error + machine" where
  "int13_read s =
     (case drives s (dl (regs s)) of
        None \<Rightarrow> Inl TypeError
      | Some drive \<Rightarrow>
          let src = read_src (regs s) drive;
              dest = read_dest (regs s);
              sectorSize = int (sector (info drive));
              drive' = drive\<lparr>buffer := drive_medium s drive\<rparr>;
              s1 = s\<lparr>drives := (drives s)(dl (regs s) \<mapsto> drive')\<rparr>
          in
            (case buffer drive' of
               None \<Rightarrow> Inr (s1\<lparr>regs := (set_cf True (regs s1))\<lparr>ah := 0xbb\<rparr>\<rparr>)
             | Some buf \<Rightarrow>
                 (case copy_sectors 0 (unat (al (regs s1))) src dest sectorSize buf (mem s1) of
                    Inl e \<Rightarrow> Inl e
                  | Inr (m', error) \<Rightarrow>
                      let s2 = s1\<lparr>mem := m', regs := (set_cf False (regs s1))\<lparr>ah := 0x0\<rparr>\<rparr>
                      in Inr (if error then s2\<lparr>regs := (set_cf True (regs s2))\<lparr>ah := 0xbb\<rparr>\<rparr>
                              else s2))))"



subsection \<open>INT 15h: wait\<close>

text \<open>
  \<^verbatim>\<open>(((cx << 0xf) | dx) / 1000) * 2\<close>. The shift and the OR work on 32-bit signed
  integers; the quotient is a JavaScript number, taken here as the exact rational. (The
  handler only compares it with 2, and a double quotient \<open>x / 1000 * 2\<close> of an integer
  \<open>x\<close> is below 2 exactly when \<open>x < 1000\<close>.)
\<close>

definition miliseconds :: "X86Regs \<Rightarrow> rat" where
  "miliseconds r =
     (of_int (sint (push_bit 0xf (ucast (cx r) :: 32 word) OR ucast (dx r))) / 1000) * 2"

text \<open>AH=86h, wait. The timer callback is \<open>run_timer WaitDone\<close>.\<close>

definition int15_wait :: "machine \<Rightarrow> machine" where
  "int15_wait s =
     (if miliseconds (regs s) < 2 then s
      else s\<lparr>regs := set_cf True (regs s), pause := True,
              timers := timers s @ [(miliseconds (regs s), WaitDone)]\<rparr>)"

fun run_timer :: "timer_callback \<Rightarrow> machine \<Rightarrow> machine" where
  "run_timer WaitDone s = s\<lparr>regs := set_cf False (regs s), pause := False\<rparr>"

subsection \<open>INT 16h: keyboard\<close>

definition clearKeyBuffer :: "bool \<Rightarrow> keymap \<Rightarrow> keymap" where
  "clearKeyBuffer clearCallback k =
     k\<lparr>caps := False, alt := False, ctrl := False, shift := False, key := None,
       callback := (if clearCallback then None else callback k)\<rparr>"

text \<open>
  \<^verbatim>\<open>code > 18 || code < 16\<close>: false for the key codes of Shift, Ctrl and Alt. In the
  comparisons \<^verbatim>\<open>null\<close> counts as 0.
\<close>

definition isCaseModifyKeycode :: "nat option \<Rightarrow> bool" where
  "isCaseModifyKeycode code =
     (let c = (case code of None \<Rightarrow> 0 | Some c \<Rightarrow> c) in c > 18 \<or> c < 16)"

text \<open>
  \<^verbatim>\<open>readKeyState(keymapTable, code)\<close>: the result is the returned flag and the new state.
  \<^verbatim>\<open>!code\<close> holds for \<^verbatim>\<open>null\<close> and for 0. An empty table entry would store
  \<^verbatim>\<open>mapping[-1]\<close>, that is \<^verbatim>\<open>undefined\<close>, in AX.
\<close>

definition readKeyState ::
  "x86_constants \<Rightarrow> KeymapTable option \<Rightarrow> nat option \<Rightarrow> machine \<Rightarrow> js_error + (bool \<times> machine)" where
  "readKeyState K keymapTable code s =
     (let s0 = s\<lparr>regs := set_ax 0x0 (regs s)\<rparr> in
      case code of
        None \<Rightarrow> Inr (False, s0)
      | Some c \<Rightarrow>
          if c = 0 then Inr (False, s0)
          else
            (case (case keymapTable of Some t \<Rightarrow> t | None \<Rightarrow> SCAN_CODES_TABLE K) c of
               None \<Rightarrow> Inr (False, s0)
             | Some mapping \<Rightarrow>
                 let i = min (int (length mapping) - 1) (if shift (keymap s0) then 1 else 0)
                 in if i < 0 then Inl UndefinedRegisterValue
                    else Inr (True, s0\<lparr>regs := set_ax (mapping ! nat i) (regs s0)\<rparr>)))"

text \<open>\<^verbatim>\<open>callback(keymap.key); clearKeyBuffer();\<close> as both branches of \<^verbatim>\<open>keyListener\<close> run it.\<close>

definition deliver_key :: "x86_constants \<Rightarrow> KeymapTable option \<Rightarrow> machine \<Rightarrow> js_error + machine" where
  "deliver_key K keymapTable s =
     (case readKeyState K keymapTable (key (keymap s)) s of
        Inl e \<Rightarrow> Inl e
      | Inr (found, s') \<Rightarrow> Inr (s'\<lparr>keymap := clearKeyBuffer True (keymap s')\<rparr>))"

definition keyListener :: "x86_constants \<Rightarrow> KeymapTable option \<Rightarrow> machine \<Rightarrow> js_error + machine" where
  "keyListener K keymapTable s =
     (if key (keymap s) = None then
        Inr (s\<lparr>pause := True,
                keymap := (keymap s)\<lparr>callback := Some (KeyListenerCallback keymapTable)\<rparr>\<rparr>)
      else if isCaseModifyKeycode (key (keymap s)) then deliver_key K keymapTable s
      else Inr s)"

text \<open>
  A key event of the host, with what the listeners read from it; \<open>bodyActive\<close> is
  \<^verbatim>\<open>document.activeElement === document.body\<close> at the time of the event.
\<close>

record KeyboardEvent =
  keyCode :: nat
  capsLock :: bool
  altKey :: bool
  ctrlKey :: bool
  shiftKey :: bool
  bodyActive :: bool

text \<open>The closure stored by \<^verbatim>\<open>keyListener\<close>, run by the \<^verbatim>\<open>keydown\<close> listener.\<close>

fun run_key_callback ::
  "x86_constants \<Rightarrow> key_callback \<Rightarrow> KeyboardEvent \<Rightarrow> machine \<Rightarrow> js_error + machine" where
  "run_key_callback K (KeyListenerCallback keymapTable) e s =
     (if \<not> bodyActive e then Inr s
      else if isCaseModifyKeycode (key (keymap s)) then
        (case deliver_key K keymapTable s of
           Inl err \<Rightarrow> Inl err
         | Inr s' \<Rightarrow> Inr (s'\<lparr>pause := False\<rparr>))
      else Inr s)"

definition keydown :: "x86_constants \<Rightarrow> KeyboardEvent \<Rightarrow> machine \<Rightarrow> js_error + machine" where
  "keydown K e s =
     (let s1 = s\<lparr>keymap := (keymap s)\<lparr>caps := capsLock e, alt := altKey e, ctrl := ctrlKey e,
                                       shift := shiftKey e, key := Some (keyCode e)\<rparr>\<rparr>
      in case callback (keymap s1) of
           None \<Rightarrow> Inr s1
         | Some cb \<Rightarrow> run_key_callback K cb e s1)"

definition keyup :: "machine \<Rightarrow> machine" where
  "keyup s = s\<lparr>keymap := clearKeyBuffer False (keymap s)\<rparr>"

text \<open>
  The key events of the host while the CPU waits, run in order by the two listeners.
\<close>

datatype host_event = KeyDown KeyboardEvent | KeyUp

fun run_events :: "x86_constants \<Rightarrow> host_event list \<Rightarrow> machine \<Rightarrow> js_error + machine" where
  "run_events K [] s = Inr s"
| "run_events K (KeyDown e # evs) s =
     (case keydown K e s of Inl err \<Rightarrow> Inl err | Inr s' \<Rightarrow> run_events K evs s')"
| "run_events K (KeyUp # evs) s = run_events K evs (keyup s)"

text \<open>
  The vocabulary of the properties of the keyboard: an event that ends the wait is a
  key-down of a key other than Shift, Ctrl and Alt while the document body has the focus;
  the code of a key is the entry of the table for the shift state, and 0 for key code 0
  and for a key that the table does not hold.
\<close>

fun resumes :: "host_event \<Rightarrow> bool" where
  "resumes (KeyDown e) = (bodyActive e \<and> isCaseModifyKeycode (Some (keyCode e)))"
| "resumes KeyUp = False"

definition key_code :: "KeymapTable \<Rightarrow> bool \<Rightarrow> nat \<Rightarrow> u16" where
  "key_code table shifted c =
     (case (if c = 0 then None else table c) of
        None \<Rightarrow> 0
      | Some mapping \<Rightarrow> mapping ! (if shifted \<and> 1 < length mapping then 1 else 0))"

text \<open>AH=0, wait for keystroke and read.\<close>

definition int16_read :: "x86_constants \<Rightarrow> machine \<Rightarrow> js_error + machine" where
  "int16_read K s = keyListener K None s"

text \<open>AH=1, get keyboard status.\<close>

definition int16_status :: "x86_constants \<Rightarrow> machine \<Rightarrow> js_error + machine" where
  "int16_status K s =
     (case readKeyState K None (key (keymap s)) s of
        Inl e \<Rightarrow> Inl e
      | Inr (found, s') \<Rightarrow> Inr (s'\<lparr>regs := set_zf (\<not> found) (regs s')\<rparr>))"

text \<open>AH=10h, wait for keystroke and read, AT, PS/2.\<close>

definition int16_read_at :: "x86_constants \<Rightarrow> machine \<Rightarrow> js_error + machine" where
  "int16_read_at K s = keyListener K (Some (AT2_SCAN_CODES_QWERTY_PRESSED K)) s"

subsection \<open>INT 10h: video\<close>

text \<open>The static table \<^verbatim>\<open>BIOS.VideoMode\<close>.\<close>

definition BIOS_VideoMode :: "nat \<Rightarrow> VideoMode option" where
  "BIOS_VideoMode =
     [0x0 \<mapsto> \<lparr>mode_code = 0x0, mode_w = 40, mode_h = 25, vgaPreset = TEXT_40x25, pages = 0x8\<rparr>,
      0x1 \<mapsto> \<lparr>mode_code = 0x1, mode_w = 40, mode_h = 25, vgaPreset = TEXT_40x25, pages = 0x8\<rparr>,
      0x2 \<mapsto> \<lparr>mode_code = 0x2, mode_w = 80, mode_h = 25, vgaPreset = TEXT_80x25, pages = 0x8\<rparr>,
      0x3 \<mapsto> \<lparr>mode_code = 0x3, mode_w = 80, mode_h = 25, vgaPreset = TEXT_80x25, pages = 0x8\<rparr>,
      0x4 \<mapsto> \<lparr>mode_code = 0x4, mode_w = 320, mode_h = 200, vgaPreset = GRAPHICS_320x200x4, pages = 0x1\<rparr>,
      0x11 \<mapsto> \<lparr>mode_code = 0x11, mode_w = 640, mode_h = 480, vgaPreset = GRAPHICS_640x480x2, pages = 0x1\<rparr>,
      0x12 \<mapsto> \<lparr>mode_code = 0x12, mode_w = 640, mode_h = 480, vgaPreset = GRAPHICS_640x480x16, pages = 0x1\<rparr>,
      0x13 \<mapsto> \<lparr>mode_code = 0x13, mode_w = 320, mode_h = 200, vgaPreset = GRAPHICS_320x200x256, pages = 0x1\<rparr>]"

text \<open>
  \<^verbatim>\<open>Number.isNaN(code)\<close> is true for the number NaN only: it does not convert its
  argument. A register byte is a number other than NaN, and an object is not a number.
\<close>

fun Number_isNaN :: "mode_arg \<Rightarrow> bool" where
  "Number_isNaN (ModeCode c) = False"
| "Number_isNaN (ModeObject m) = False"

text \<open>
  \<^verbatim>\<open>BIOS.VideoMode[code]\<close>. A number is looked up as it is. An object used as a property
  key is converted to a string, \<^verbatim>\<open>[object Object]\<close> for an object of a class without a
  \<^verbatim>\<open>toString\<close> of its own, and the table has no such key: the result is \<^verbatim>\<open>undefined\<close>.
\<close>

fun lookup_VideoMode :: "mode_arg \<Rightarrow> VideoMode option" where
  "lookup_VideoMode (ModeCode c) = BIOS_VideoMode (unat c)"
| "lookup_VideoMode (ModeObject m) = None"

definition setVideoMode :: "mode_arg \<Rightarrow> machine \<Rightarrow> machine" where
  "setVideoMode code s =
     (let newMode =
            (if Number_isNaN code then (case code of ModeObject m \<Rightarrow> Some m | ModeCode c \<Rightarrow> None)
             else lookup_VideoMode code)
      in case newMode of
           Some m \<Rightarrow> s\<lparr>screen := (screen s)\<lparr>mode := Some m\<rparr>,
                       vga := loadModePreset (vgaPreset m) (vga s)\<rparr>
         | None \<Rightarrow> s\<lparr>warnings := warnings s @ [code]\<rparr>)"

text \<open>The arguments that the callers of \<^verbatim>\<open>writeCharacter\<close> pass for \<^verbatim>\<open>attribute\<close>.\<close>

datatype attr_arg = AttrUndefined | AttrNull | AttrNum u8

fun attr_byte :: "attr_arg \<Rightarrow> u8" where
  "attr_byte (AttrNum a) = a"
| "attr_byte _ = 0"

definition writeGraphicsCharacter ::
  "x86_constants \<Rightarrow> Vec2D \<Rightarrow> u8 \<Rightarrow> u8 \<Rightarrow> u8 \<Rightarrow> VGA \<Rightarrow> VGA" where
  "writeGraphicsCharacter K pos char attr fgColor v =
     (let background = drop_bit 4 (attr AND 0x70) in
      fold (\<lambda>row. fold (\<lambda>col.
              let charBitsetRow = VGA_8X8_FONT_data K (8 * uint char + int row);
                  b = drop_bit col charBitsetRow AND 0x1
              in memIO_write8 (if b \<noteq> 0 then fgColor else background)
                   (0xa0000 + (vec_y pos * 8 + int row) * pixelScreenSize_w v
                      + vec_x pos * 8 + (8 - 1 - int col)))
            [0..<8])
        [0..<8] v)"

text \<open>
  \<^verbatim>\<open>writeCharacter(character, attribute, color, moveCursor, cursor)\<close>, with only booleans
  for \<^verbatim>\<open>color\<close>, as every caller passes. The result holds the cursor object as the call
  leaves it. \<^verbatim>\<open>this.screen.mode\<close> is \<^verbatim>\<open>null\<close> until a mode is set; reading its fields then
  raises a \<^verbatim>\<open>TypeError\<close>.
\<close>

definition writeCharacter ::
  "x86_constants \<Rightarrow> u8 \<Rightarrow> attr_arg \<Rightarrow> bool \<Rightarrow> bool \<Rightarrow> Vec2D \<Rightarrow> machine
     \<Rightarrow> js_error + (Vec2D \<times> machine)" where
  "writeCharacter K character attribute color moveCursor cursor s =
     (let finish = (\<lambda>c s'. Inr (c, if moveCursor then s'\<lparr>vga := setCursorLocation c (vga s')\<rparr> else s'))
      in
      if character = 0x8 then finish (cursor\<lparr>vec_x := vec_x cursor - 1\<rparr>) s
      else if character = 0xa \<or> character = 0xd then
        (let c1 = (if character = 0xa then cursor\<lparr>vec_y := vec_y cursor + 1\<rparr>
                   else cursor\<lparr>vec_x := 0\<rparr>)
         in case mode (screen s) of
              None \<Rightarrow> Inl TypeError
            | Some m \<Rightarrow>
                if vec_y c1 \<ge> mode_h m
                then finish (c1\<lparr>vec_y := mode_h m - 1\<rparr>) (s\<lparr>vga := scrollTextUp K (vga s)\<rparr>)
                else finish c1 s)
      else
        (let color' =
               (if color then
                  (case (if attribute = AttrUndefined then AttrNum (bl (regs s)) else attribute) of
                     AttrNum a \<Rightarrow> if a = 0 then 0b111 else a
                   | _ \<Rightarrow> 0b111)
                else 0b111)
         in case mode (screen s) of
              None \<Rightarrow> Inl TypeError
            | Some m \<Rightarrow>
                let v1 = (if textMode (vga s)
                          then VideoMode_write character color' (vec_x cursor) (vec_y cursor)
                                 (page (screen s)) (vga s)
                          else writeGraphicsCharacter K cursor character (attr_byte attribute)
                                 color' (vga s));
                    c1 = cursor\<lparr>vec_x := vec_x cursor + 1\<rparr>;
                    c2 = (if vec_x c1 \<ge> mode_w m then
                            (if textMode (vga s) then c1\<lparr>vec_x := 0, vec_y := vec_y c1 + 1\<rparr>
                             else c1\<lparr>vec_x := vec_x c1 - 1\<rparr>)
                          else c1)
                in finish c2 (s\<lparr>vga := v1\<rparr>)))"

text \<open>AH=0, set video mode.\<close>

definition int10_set_mode :: "machine \<Rightarrow> machine" where
  "int10_set_mode s = setVideoMode (ModeCode (al (regs s))) s"

text \<open>AH=2, cursor position.\<close>

definition int10_set_cursor :: "machine \<Rightarrow> machine" where
  "int10_set_cursor s =
     s\<lparr>vga := setCursorLocation \<lparr>vec_x = uint (dl (regs s)), vec_y = uint (dh (regs s))\<rparr> (vga s)\<rparr>"

text \<open>
  AH=3, get cursor position and shape: \<^verbatim>\<open>Object.assign\<close> stores DL, DH and AX in this
  order; a byte register keeps the low octet of what is stored.
\<close>

definition int10_get_cursor :: "machine \<Rightarrow> machine" where
  "int10_get_cursor s =
     (let cursor = getTextCursorLocation (vga s)
      in s\<lparr>regs := set_ax 0 ((regs s)\<lparr>dl := word_of_int (vec_x cursor),
                                        dh := word_of_int (vec_y cursor)\<rparr>)\<rparr>)"

text \<open>AH=5, change active screen.\<close>

definition int10_set_page :: "machine \<Rightarrow> machine" where
  "int10_set_page s = s\<lparr>screen := (screen s)\<lparr>page := unat (al (regs s))\<rparr>\<rparr>"

text \<open>AH=0Eh, write character and move the cursor.\<close>

definition int10_teletype :: "x86_constants \<Rightarrow> machine \<Rightarrow> js_error + machine" where
  "int10_teletype K s =
     (case (if textMode (vga s)
            then writeCharacter K (al (regs s)) AttrNull False True
                   (getTextCursorLocation (vga s)) s
            else writeCharacter K (al (regs s)) (AttrNum (bl (regs s))) True True
                   (getTextCursorLocation (vga s)) s) of
        Inl e \<Rightarrow> Inl e
      | Inr (c, s') \<Rightarrow> Inr s')"

text \<open>AH=11h, extensions: AL=12h is meant to extend the screen to 80x50.\<close>

definition int10_extensions :: "machine \<Rightarrow> machine" where
  "int10_extensions s =
     (if al (regs s) = 0x12
      then setVideoMode
             (ModeObject \<lparr>mode_code = 0x12, mode_w = 80, mode_h = 50, vgaPreset = TEXT_80x50,
                          pages = 0x1\<rparr>) s
      else s)"

subsection \<open>The machine after \<^verbatim>\<open>BIOS.init\<close>\<close>

text \<open>
  The state that the field initialisers of the class and \<^verbatim>\<open>init\<close> leave, booted from drive
  0 with a 512-byte image in a memory of 1 MiB: no screen mode, no key, no drive buffer.
\<close>

definition regs0 :: X86Regs where
  "regs0 = \<lparr>al = 0, ah = 0, bl = 0, bh = 0, cl = 0, ch = 0, dl = 0, dh = 0, bp = 0, es = 0,
            status = \<lparr>cf = False, zf = False\<rparr>\<rparr>"

definition vga0 :: VGA where
  "vga0 = \<lparr>textMode = False, cursorLocation = \<lparr>vec_x = 0, vec_y = 0\<rparr>, loadedPreset = None,
           pixelScreenSize_w = 0, textCells = (\<lambda>pg col row. None), graphicsMem = (\<lambda>a. None)\<rparr>"

definition keymap0 :: keymap where
  "keymap0 = \<lparr>caps = False, ctrl = False, alt = False, shift = False, key = None,
              callback = None\<rparr>"

definition boot_image :: "u8 list" where
  "boot_image = map of_nat [0..<512]"

definition machine0 :: machine where
  "machine0 = \<lparr>regs = regs0, pause = False, mem = replicate 0x100000 0,
               device = Some boot_image, drives = init_drives 0,
               screen = \<lparr>page = 0, mode = None\<rparr>, vga = vga0, keymap = keymap0,
               timers = [], warnings = []\<rparr>"

text \<open>The same machine after INT 10h AH=0 with AL=3: the 80x25 text mode.\<close>

definition machine_text :: machine where
  "machine_text = setVideoMode (ModeCode 0x3) machine0"

text \<open>
  One choice of the constants that are parameters: tables that hold the key A (key code
  65), an empty font and a \<^verbatim>\<open>scrollTextUp\<close> that leaves the screen as it is.
\<close>

definition constants0 :: x86_constants where
  "constants0 = \<lparr>SCAN_CODES_TABLE = [65 \<mapsto> [0x1E61, 0x1E41]],
                 AT2_SCAN_CODES_QWERTY_PRESSED = [65 \<mapsto> [0x1C]],
                 VGA_8X8_FONT_data = (\<lambda>i. 0), scrollTextUp = (\<lambda>v. v)\<rparr>"

definition key_a_down :: KeyboardEvent where
  "key_a_down = \<lparr>keyCode = 65, capsLock = False, altKey = False, ctrlKey = False,
                  shiftKey = False, bodyActive = True\<rparr>"

definition shift_down :: KeyboardEvent where
  "shift_down = \<lparr>keyCode = 16, capsLock = False, altKey = False, ctrlKey = False,
                  shiftKey = True, bodyActive = True\<rparr>"

text \<open>
  The text-mode machine about to run INT 10h AH=0Eh with AL='X' while the cursor stands
  in the last column of row 0, and the machine as INT 16h AH=0 leaves it when no key is
  pressed.
\<close>

definition machine_last_column :: machine where
  "machine_last_column =
     machine_text\<lparr>regs := regs0\<lparr>ah := 0x0E, al := 0x58\<rparr>,
                  vga := (vga machine_text)\<lparr>cursorLocation := \<lparr>vec_x = 79, vec_y = 0\<rparr>\<rparr>\<rparr>"

definition machine_waiting :: machine where
  "machine_waiting =
     machine0\<lparr>pause := True,
              keymap := keymap0\<lparr>callback := Some (KeyListenerCallback None)\<rparr>\<rparr>"

section \<open>Properties\<close>

subsection \<open>INT 13h AH=0\<close>

text \<open>
  C10. For every invocation of INT 13h with AH=0 (reset): if DL names an attached drive
  the handler sets AH=0 and CF=0; if DL names no attached drive it sets AH=6 and CF=1.
\<close>

theorem int13_reset_status:
  "(drives s (dl (regs s)) \<noteq> None \<longrightarrow>
      ah (regs (int13_reset s)) = 0 \<and> cf (status (regs (int13_reset s))) = False)
   \<and> (drives s (dl (regs s)) = None \<longrightarrow>
      ah (regs (int13_reset s)) = 6 \<and> cf (status (regs (int13_reset s))) = True)"
  by (auto simp: int13_reset_def set_cf_def split: option.splits)

theorem int13_reset_status_witness:
  "ah (regs (int13_reset machine0)) = 0
   \<and> cf (status (regs (int13_reset machine0))) = False
   \<and> ah (regs (int13_reset (machine0\<lparr>regs := regs0\<lparr>dl := 0x80\<rparr>\<rparr>))) = 6
   \<and> cf (status (regs (int13_reset (machine0\<lparr>regs := regs0\<lparr>dl := 0x80\<rparr>\<rparr>)))) = True"
  using int13_reset_status [of machine0]
    int13_reset_status [of "machine0\<lparr>regs := regs0\<lparr>dl := 0x80\<rparr>\<rparr>"]
  by (simp add: machine0_def regs0_def init_drives_def)

subsection \<open>INT 13h AH=2\<close>










lemma drives_machine0:
  "drives machine0 0
     = Some \<lparr>buffer = None, track = 0, info = \<lparr>sector = 512, sectors = 18, heads = 2\<rparr>\<rparr>"
  by (simp add: machine0_def init_drives_def)

lemma drive_medium_machine0:
  "drive_medium (machine0\<lparr>regs := r\<rparr>)
     \<lparr>buffer = None, track = 0, info = \<lparr>sector = 512, sectors = 18, heads = 2\<rparr>\<rparr>
     = Some boot_image"
  by (simp add: drive_medium_def machine0_def)

lemma length_boot_image: "length boot_image = 512"
  by (simp add: boot_image_def)

lemma length_mem_machine0: "length (mem machine0) = 0x100000"
  by (simp add: machine0_def)








lemma uint_reg16: "uint (reg16 hi lo) = 256 * uint hi + uint lo"
proof -
  have "reg16 hi lo = word_cat hi lo"
    unfolding reg16_def by (rule bit_word_eqI) (auto simp: bit_simps dest: bit_imp_le_length)
  then show ?thesis
    using uint_lt2p [of hi] uint_lt2p [of lo]
    apply (simp add: word_cat_eq uint_word_of_int take_bit_eq_mod push_bit_eq_mult del: of_int_add)
    apply (simp add: uint_word_ariths uint_up_ucast is_up)
    done
qed

lemma read_cylinder_reg16: "read_cylinder r = reg16 (drop_bit 6 (cl r)) (ch r)"
proof -
  have m1: "(0xff00::u16) = push_bit 8 (mask 8)" by (simp add: mask_eq_exp_minus_1)
  have m2: "(0xc0::u16) = push_bit 6 (mask 2)" by (simp add: mask_eq_exp_minus_1)
  show ?thesis
    unfolding read_cylinder_def cx_def reg16_def m1 m2
    by (rule bit_word_eqI) (auto simp: bit_simps dest: bit_imp_le_length)
qed

lemma uint_read_cylinder:
  "uint (read_cylinder r) = uint (ch r) + 256 * (uint (cl r) div 64)"
  by (simp add: read_cylinder_reg16 uint_reg16 uint_div_distrib drop_bit_eq_div)

lemma uint_read_sector: "uint (read_sector r) = uint (cl r) mod 64"
proof -
  have m3: "(0x3f::u8) = mask 6" by (simp add: mask_eq_exp_minus_1)
  show ?thesis
    unfolding read_sector_def m3
    by (simp add: uint_mod_distrib take_bit_eq_mod flip: take_bit_eq_mask)
qed

text \<open>
  C3. For every INT 13h AH=2 read of an attached drive with a medium, the cylinder is CH
  with bits 7..6 of CL as its two high bits, the sector is bits 5..0 of CL (1-based), the
  head is DH, the drive is the one that DL names and the count is AL: the source byte
  offset is \<open>((cylinder * heads + DH) * sectors_per_track + sector - 1) * sector_size\<close>,
  the destination is the linear address of ES:BX, and the handler's outcome is that of
  copying AL sectors from that offset of the drive's medium to that address.
\<close>

theorem int13_read_chs:
  assumes "drives s (dl (regs s)) = Some d" and "drive_medium s d = Some buf"
  shows "uint (read_cylinder (regs s)) = uint (ch (regs s)) + 256 * (uint (cl (regs s)) div 64)
     \<and> uint (read_sector (regs s)) = uint (cl (regs s)) mod 64
     \<and> read_src (regs s) d =
          (((uint (ch (regs s)) + 256 * (uint (cl (regs s)) div 64)) * int (heads (info d))
              + uint (dh (regs s))) * int (sectors (info d))
             + uint (cl (regs s)) mod 64 - 1) * int (sector (info d))
     \<and> read_dest (regs s)
          = (uint (es (regs s)) * 16 + (256 * uint (bh (regs s)) + uint (bl (regs s))))
              mod 0x100000
     \<and> (case copy_sectors 0 (unat (al (regs s))) (read_src (regs s) d) (read_dest (regs s))
                (int (sector (info d))) buf (mem s) of
          Inl e \<Rightarrow> int13_read s = Inl e
        | Inr (m', err) \<Rightarrow>
            (\<exists>s'. int13_read s = Inr s' \<and> mem s' = m' \<and> cf (status (regs s')) = err))"
proof (intro conjI)
  show "uint (read_cylinder (regs s)) = uint (ch (regs s)) + 256 * (uint (cl (regs s)) div 64)"
    by (rule uint_read_cylinder)
  show "uint (read_sector (regs s)) = uint (cl (regs s)) mod 64"
    by (rule uint_read_sector)
  show "read_src (regs s) d =
          (((uint (ch (regs s)) + 256 * (uint (cl (regs s)) div 64)) * int (heads (info d))
              + uint (dh (regs s))) * int (sectors (info d))
             + uint (cl (regs s)) mod 64 - 1) * int (sector (info d))"
    by (simp add: read_src_def uint_read_cylinder uint_read_sector)
  show "read_dest (regs s)
          = (uint (es (regs s)) * 16 + (256 * uint (bh (regs s)) + uint (bl (regs s))))
              mod 0x100000"
    by (simp add: read_dest_def getMemAddress_def bx_def uint_reg16)
  show "case copy_sectors 0 (unat (al (regs s))) (read_src (regs s) d) (read_dest (regs s))
                (int (sector (info d))) buf (mem s) of
          Inl e \<Rightarrow> int13_read s = Inl e
        | Inr (m', err) \<Rightarrow>
            (\<exists>s'. int13_read s = Inr s' \<and> mem s' = m' \<and> cf (status (regs s')) = err)"
    using assms
    by (auto simp: int13_read_def Let_def set_cf_def split: sum.splits prod.splits)
qed


text \<open>The witness decodes CH=2, CL=41h, DH=1, ES:BX=0000:7E00 for the boot drive.\<close>

theorem int13_read_chs_witness:
  "uint (read_cylinder (regs0\<lparr>al := 1, cl := 0x41, ch := 2, dh := 1, bh := 0x7E\<rparr>)) = 258
   \<and> uint (read_sector (regs0\<lparr>al := 1, cl := 0x41, ch := 2, dh := 1, bh := 0x7E\<rparr>)) = 1
   \<and> read_src (regs0\<lparr>al := 1, cl := 0x41, ch := 2, dh := 1, bh := 0x7E\<rparr>)
         \<lparr>buffer = None, track = 0, info = \<lparr>sector = 512, sectors = 18, heads = 2\<rparr>\<rparr>
       = 4764672
   \<and> read_dest (regs0\<lparr>al := 1, cl := 0x41, ch := 2, dh := 1, bh := 0x7E\<rparr>) = 0x7E00"
proof -
  let ?r = "regs0\<lparr>al := 1, cl := 0x41, ch := 2, dh := 1, bh := 0x7E\<rparr>"
  let ?d = "\<lparr>buffer = None, track = 0, info = \<lparr>sector = 512, sectors = 18, heads = 2\<rparr>\<rparr>"
  have r: "dl ?r = 0" "cl ?r = 0x41" "ch ?r = 2" "dh ?r = 1" "bh ?r = 0x7E" "bl ?r = 0" "es ?r = 0"
    by (simp_all add: regs0_def)
  have "drives (machine0\<lparr>regs := ?r\<rparr>) (dl (regs (machine0\<lparr>regs := ?r\<rparr>))) = Some ?d"
    by (simp add: r drives_machine0)
  moreover have "drive_medium (machine0\<lparr>regs := ?r\<rparr>) ?d = Some boot_image"
    by (rule drive_medium_machine0)
  ultimately show ?thesis
    using int13_read_chs [of "machine0\<lparr>regs := ?r\<rparr>" ?d boot_image]
    by (simp add: r)
qed

lemma copy_sectors_single:
  assumes "0 \<le> dest" "0 \<le> src" "dest + int ss \<le> int (length m)" "src + int ss \<le> int (length buf)"
  shows "copy_sectors 0 1 src dest (int ss) buf m
           = Inr (take (nat dest) m @ take ss (drop (nat src) buf) @ drop (nat dest + ss) m, False)"
proof -
  have le: "ss \<le> length m - nat dest" "ss \<le> length buf - nat src"
    using assms by linarith+
  have fit: "take (length m - nat dest) (take ss (drop (nat src) buf)) = take ss (drop (nat src) buf)"
    using le by (simp add: min_absorb2)
  have len: "length (take ss (drop (nat src) buf)) = ss"
    using le by (simp add: min_absorb2)
  have "Buffer_copy buf m dest src (src + int ss)
          = Inr (take (nat dest) m @ take ss (drop (nat src) buf) @ drop (nat dest + ss) m)"
    using assms unfolding Buffer_copy_def Let_def by (simp add: fit len)
  moreover have "min (src + int ss) (int (length buf)) = src + int ss"
    using assms by simp
  moreover have "copy_sectors (Suc 0) 1 src dest (int ss) buf m' = Inr (m', False)" for m'
    by (subst copy_sectors.simps) simp
  ultimately show ?thesis
    using assms by (subst copy_sectors.simps) (simp add: Let_def)
qed

text \<open>
  C4. With drive 0 attached, of 512-byte sectors and with a medium of at least 512 bytes,
  in a memory of 1 MiB, INT 13h with AH=2, AL=1, CH=0, CL=1, DH=0, DL=0 and ES:BX pointing
  at the linear address 7E00h copies exactly the first 512 bytes of the medium to
  7E00h..7FFFh, leaves the rest of the memory as it was, and returns with CF=0 and AH=0.
\<close>

theorem int13_read_boot_sector:
  assumes "drives s 0 = Some d" and "sector (info d) = 512"
    and "drive_medium s d = Some buf" and "512 \<le> length buf"
    and "length (mem s) = 0x100000"
    and "ah (regs s) = 2" and "al (regs s) = 1" and "ch (regs s) = 0" and "cl (regs s) = 1"
    and "dh (regs s) = 0" and "dl (regs s) = 0"
    and "read_dest (regs s) = 0x7E00"
  shows "\<exists>s'. int13_read s = Inr s'
           \<and> mem s' = take 0x7E00 (mem s) @ take 512 buf @ drop 0x8000 (mem s)
           \<and> cf (status (regs s')) = False \<and> ah (regs s') = 0"
proof -
  have src: "read_src (regs s) d = 0"
    using assms by (simp add: read_src_def uint_read_cylinder uint_read_sector)
  have "copy_sectors 0 1 0 0x7E00 (int 512) buf (mem s)
          = Inr (take (nat 0x7E00) (mem s) @ take 512 (drop (nat 0) buf)
                   @ drop (nat 0x7E00 + 512) (mem s), False)"
    using assms by (intro copy_sectors_single) simp_all
  then have "copy_sectors 0 1 0 0x7E00 512 buf (mem s)
          = Inr (take 0x7E00 (mem s) @ take 512 buf @ drop 0x8000 (mem s), False)"
    by simp
  then show ?thesis
    using assms src by (simp add: int13_read_def Let_def set_cf_def)
qed

text \<open>The witness is the machine after \<^verbatim>\<open>init\<close>, with ES=0 and BX=7E00h.\<close>

theorem int13_read_boot_sector_witness:
  "\<exists>s'. int13_read (machine0\<lparr>regs := regs0\<lparr>ah := 2, al := 1, cl := 1, bh := 0x7E\<rparr>\<rparr>) = Inr s'
      \<and> mem s' = take 0x7E00 (mem machine0) @ take 512 boot_image @ drop 0x8000 (mem machine0)
      \<and> cf (status (regs s')) = False \<and> ah (regs s') = 0"
proof -
  let ?r = "regs0\<lparr>ah := 2, al := 1, cl := 1, bh := 0x7E\<rparr>"
  let ?d = "\<lparr>buffer = None, track = 0, info = \<lparr>sector = 512, sectors = 18, heads = 2\<rparr>\<rparr>"
  have r: "ah ?r = 2" "al ?r = 1" "ch ?r = 0" "cl ?r = 1" "dh ?r = 0" "dl ?r = 0"
    by (simp_all add: regs0_def)
  have dest: "read_dest ?r = 0x7E00"
    by (simp add: read_dest_def getMemAddress_def bx_def uint_reg16 regs0_def)
  show ?thesis
    using int13_read_boot_sector [of "machine0\<lparr>regs := ?r\<rparr>" ?d boot_image]
    by (simp add: r dest drives_machine0 drive_medium_machine0 length_boot_image
        length_mem_machine0)
qed

subsection \<open>INT 15h AH=86h\<close>

lemma miliseconds_lt_2_iff:
  "miliseconds r < 2 \<longleftrightarrow> sint (push_bit 0xf (ucast (cx r) :: 32 word) OR ucast (dx r)) < 1000"
  unfolding miliseconds_def by (simp add: field_simps del: of_int_sint)

lemma miliseconds_regs0: "miliseconds regs0 = 0"
  by (simp add: miliseconds_def regs0_def cx_def dx_def reg16_def)

lemma miliseconds_dx_500: "miliseconds (regs0\<lparr>dl := 0xF4, dh := 0x01\<rparr>) = 1"
  by (simp add: miliseconds_def regs0_def cx_def dx_def reg16_def)

lemma miliseconds_dx_1000: "miliseconds (regs0\<lparr>dl := 0xE8, dh := 0x03\<rparr>) = 2"
  by (simp add: miliseconds_def regs0_def cx_def dx_def reg16_def)

text \<open>
  C1, as the code has it. When the delay that the handler computes from CX and DX is at
  least 2 ms, the handler sets CF=1 and paused=true and schedules one host timer callback
  with that delay, and the callback clears both CF and paused; when the delay is below
  2 ms the handler returns at once and changes nothing.
\<close>

theorem int15_wait_pauses:
  "(\<not> miliseconds (regs s) < 2 \<longrightarrow>
      cf (status (regs (int15_wait s))) = True \<and> pause (int15_wait s) = True
      \<and> timers (int15_wait s) = timers s @ [(miliseconds (regs s), WaitDone)]
      \<and> cf (status (regs (run_timer WaitDone s'))) = False
      \<and> pause (run_timer WaitDone s') = False)
   \<and> (miliseconds (regs s) < 2 \<longrightarrow> int15_wait s = s)"
  by (simp add: int15_wait_def set_cf_def)

theorem int15_wait_pauses_witness:
  "cf (status (regs (int15_wait (machine0\<lparr>regs := regs0\<lparr>dl := 0xE8, dh := 0x03\<rparr>\<rparr>)))) = True
   \<and> pause (int15_wait (machine0\<lparr>regs := regs0\<lparr>dl := 0xE8, dh := 0x03\<rparr>\<rparr>)) = True
   \<and> timers (int15_wait (machine0\<lparr>regs := regs0\<lparr>dl := 0xE8, dh := 0x03\<rparr>\<rparr>)) = [(2, WaitDone)]
   \<and> cf (status (regs (run_timer WaitDone
          (int15_wait (machine0\<lparr>regs := regs0\<lparr>dl := 0xE8, dh := 0x03\<rparr>\<rparr>))))) = False
   \<and> pause (run_timer WaitDone
          (int15_wait (machine0\<lparr>regs := regs0\<lparr>dl := 0xE8, dh := 0x03\<rparr>\<rparr>))) = False
   \<and> int15_wait machine0 = machine0"
  using int15_wait_pauses [of "machine0\<lparr>regs := regs0\<lparr>dl := 0xE8, dh := 0x03\<rparr>\<rparr>"
      "int15_wait (machine0\<lparr>regs := regs0\<lparr>dl := 0xE8, dh := 0x03\<rparr>\<rparr>)"]
    int15_wait_pauses [of machine0]
  by (simp add: miliseconds_dx_1000 miliseconds_regs0 machine0_def)

text \<open>
  C1 as stated fails: with CX=0 and DX=500 (a wait of 500 microseconds) the handler
  returns with CF=0 and paused=false, and no timer is scheduled.
\<close>

theorem int15_wait_short_counterexample:
  "cf (status (regs (int15_wait (machine0\<lparr>regs := regs0\<lparr>dl := 0xF4, dh := 0x01\<rparr>\<rparr>)))) = False
   \<and> pause (int15_wait (machine0\<lparr>regs := regs0\<lparr>dl := 0xF4, dh := 0x01\<rparr>\<rparr>)) = False
   \<and> timers (int15_wait (machine0\<lparr>regs := regs0\<lparr>dl := 0xF4, dh := 0x01\<rparr>\<rparr>)) = []"
  by (simp add: int15_wait_def miliseconds_dx_500 machine0_def) (simp add: regs0_def)

subsection \<open>INT 10h AH=11h\<close>

lemma mode_machine_text:
  "mode (screen machine_text)
     = Some \<lparr>mode_code = 0x3, mode_w = 80, mode_h = 25, vgaPreset = TEXT_80x25, pages = 0x8\<rparr>"
  by (simp add: machine_text_def setVideoMode_def BIOS_VideoMode_def)

lemma vga_machine_text:
  "vga machine_text = vga0\<lparr>loadedPreset := Some TEXT_80x25, textMode := True\<rparr>"
  by (simp add: machine_text_def setVideoMode_def BIOS_VideoMode_def loadModePreset_def machine0_def)

text \<open>
  C5 does not hold of the code. INT 10h with AH=11h and AL=12h in the 80x25 text mode
  leaves the screen mode and the loaded VGA preset as they were and logs the warning of
  an unknown screen code: \<^verbatim>\<open>setVideoMode\<close> is handed a \<^verbatim>\<open>VideoMode\<close> object, for which
  \<^verbatim>\<open>Number.isNaN\<close> is false, and looks the object up in the table of modes.
\<close>

theorem int10_extensions_keeps_mode:
  "mode (screen (int10_extensions (machine_text\<lparr>regs := regs0\<lparr>ah := 0x11, al := 0x12\<rparr>\<rparr>)))
     = Some \<lparr>mode_code = 0x3, mode_w = 80, mode_h = 25, vgaPreset = TEXT_80x25, pages = 0x8\<rparr>
   \<and> loadedPreset (vga (int10_extensions (machine_text\<lparr>regs := regs0\<lparr>ah := 0x11, al := 0x12\<rparr>\<rparr>)))
     = Some TEXT_80x25
   \<and> warnings (int10_extensions (machine_text\<lparr>regs := regs0\<lparr>ah := 0x11, al := 0x12\<rparr>\<rparr>))
     = [ModeObject \<lparr>mode_code = 0x12, mode_w = 80, mode_h = 50, vgaPreset = TEXT_80x50,
                    pages = 0x1\<rparr>]"
  by (simp add: int10_extensions_def setVideoMode_def mode_machine_text vga_machine_text)
    (simp add: regs0_def machine_text_def setVideoMode_def BIOS_VideoMode_def machine0_def)

text \<open>In every state the service changes nothing but the log of warnings.\<close>

lemma int10_extensions_never_sets:
  "int10_extensions s =
     (if al (regs s) = 0x12
      then s\<lparr>warnings := warnings s
                 @ [ModeObject \<lparr>mode_code = 0x12, mode_w = 80, mode_h = 50,
                                vgaPreset = TEXT_80x50, pages = 0x1\<rparr>]\<rparr>
      else s)"
  by (simp add: int10_extensions_def setVideoMode_def)

subsection \<open>INT 10h AH=2 and AH=3\<close>

lemma ax_set_ax: "ax (set_ax v r) = v"
  unfolding ax_def set_ax_def reg16_def
  by (simp) (rule bit_word_eqI, auto simp: bit_simps dest: bit_imp_le_length)

text \<open>
  C7. For every column DL and row DH, INT 10h AH=2 with that DL and DH followed by INT 10h
  AH=3, whatever the registers hold at the second call, returns the same DL and DH, and
  AX is 0 after the second call.
\<close>

theorem int10_cursor_roundtrip:
  "dl (regs (int10_get_cursor ((int10_set_cursor s)\<lparr>regs := r\<rparr>))) = dl (regs s)
   \<and> dh (regs (int10_get_cursor ((int10_set_cursor s)\<lparr>regs := r\<rparr>))) = dh (regs s)
   \<and> ax (regs (int10_get_cursor ((int10_set_cursor s)\<lparr>regs := r\<rparr>))) = 0"
  by (simp add: int10_get_cursor_def int10_set_cursor_def getTextCursorLocation_def
      setCursorLocation_def ax_set_ax) (simp add: set_ax_def)


subsection \<open>INT 10h AH=0Eh\<close>

lemma int10_teletype_text:
  assumes "textMode (vga s)" and "mode (screen s) = Some m"
    and "al (regs s) \<noteq> 0x8" and "al (regs s) \<noteq> 0xa" and "al (regs s) \<noteq> 0xd"
  shows "int10_teletype K s =
           Inr (s\<lparr>vga := (VideoMode_write (al (regs s)) 0b111 (vec_x (cursorLocation (vga s)))
                            (vec_y (cursorLocation (vga s))) (page (screen s)) (vga s))
                         \<lparr>cursorLocation :=
                            (if vec_x (cursorLocation (vga s)) + 1 \<ge> mode_w m
                             then \<lparr>vec_x = 0, vec_y = vec_y (cursorLocation (vga s)) + 1\<rparr>
                             else \<lparr>vec_x = vec_x (cursorLocation (vga s)) + 1,
                                   vec_y = vec_y (cursorLocation (vga s))\<rparr>)\<rparr>\<rparr>)"
  using assms
  by (simp add: int10_teletype_def writeCharacter_def Let_def getTextCursorLocation_def
      setCursorLocation_def)

text \<open>
  C6, as the code has it. In the 80x25 text mode with active page 0, INT 10h with AH=0Eh
  and AL='X' writes the character 'X' with the default attribute 07h into the cell at the
  cursor on text page 0 and moves the cursor one column to the right, or to column 0 of
  the next row when the cursor stood in the last column.
\<close>

theorem int10_teletype_writes_X:
  assumes "textMode (vga s)" and "mode (screen s) = Some m" and "mode_w m = 80"
    and "mode_h m = 25" and "page (screen s) = 0"
    and "ah (regs s) = 0x0E" and "al (regs s) = 0x58"
  shows "\<exists>s'. int10_teletype K s = Inr s'
           \<and> textCells (vga s') 0 (vec_x (getTextCursorLocation (vga s)))
                 (vec_y (getTextCursorLocation (vga s))) = Some (0x58, 0x07)
           \<and> getTextCursorLocation (vga s') =
                 (if vec_x (getTextCursorLocation (vga s)) < 79
                  then \<lparr>vec_x = vec_x (getTextCursorLocation (vga s)) + 1,
                        vec_y = vec_y (getTextCursorLocation (vga s))\<rparr>
                  else \<lparr>vec_x = 0, vec_y = vec_y (getTextCursorLocation (vga s)) + 1\<rparr>)"
  using assms
  by (simp add: int10_teletype_text [where m = m] getTextCursorLocation_def VideoMode_write_def)

lemma machine_last_column_simps:
  "textMode (vga machine_last_column)"
  "mode (screen machine_last_column)
     = Some \<lparr>mode_code = 0x3, mode_w = 80, mode_h = 25, vgaPreset = TEXT_80x25, pages = 0x8\<rparr>"
  "page (screen machine_last_column) = 0"
  "ah (regs machine_last_column) = 0x0E"
  "al (regs machine_last_column) = 0x58"
  "cursorLocation (vga machine_last_column) = \<lparr>vec_x = 79, vec_y = 0\<rparr>"
  by (simp_all add: machine_last_column_def mode_machine_text vga_machine_text regs0_def)
    (simp add: machine_text_def setVideoMode_def BIOS_VideoMode_def machine0_def)

text \<open>The witness writes at column 0 and at column 79 of row 0.\<close>

theorem int10_teletype_writes_X_witness:
  "(\<exists>s'. int10_teletype constants0 (machine_text\<lparr>regs := regs0\<lparr>ah := 0x0E, al := 0x58\<rparr>\<rparr>) = Inr s'
      \<and> textCells (vga s') 0 0 0 = Some (0x58, 0x07)
      \<and> getTextCursorLocation (vga s') = \<lparr>vec_x = 1, vec_y = 0\<rparr>)
   \<and> (\<exists>s'. int10_teletype constants0 machine_last_column = Inr s'
      \<and> textCells (vga s') 0 79 0 = Some (0x58, 0x07)
      \<and> getTextCursorLocation (vga s') = \<lparr>vec_x = 0, vec_y = 1\<rparr>)"
proof -
  let ?m = "\<lparr>mode_code = 0x3, mode_w = 80, mode_h = 25, vgaPreset = TEXT_80x25, pages = 0x8\<rparr>"
  have t: "textMode (vga machine_text)" "page (screen machine_text) = 0"
    "cursorLocation (vga machine_text) = \<lparr>vec_x = 0, vec_y = 0\<rparr>"
    "ah (regs0\<lparr>ah := 0x0E, al := 0x58\<rparr>) = 0x0E" "al (regs0\<lparr>ah := 0x0E, al := 0x58\<rparr>) = 0x58"
    by (simp_all add: vga_machine_text vga0_def)
      (simp add: machine_text_def setVideoMode_def BIOS_VideoMode_def machine0_def)
  show ?thesis
    using int10_teletype_writes_X [of "machine_text\<lparr>regs := regs0\<lparr>ah := 0x0E, al := 0x58\<rparr>\<rparr>"
        ?m constants0]
      int10_teletype_writes_X [of machine_last_column ?m constants0]
    by (simp add: t mode_machine_text machine_last_column_simps getTextCursorLocation_def)
qed

text \<open>
  C6 as stated fails: with the cursor in column 79 of row 0 the cursor does not advance
  by one column, it goes to column 0 of row 1.
\<close>

theorem int10_teletype_last_column_counterexample:
  "int10_teletype constants0 machine_last_column =
     Inr (machine_last_column
            \<lparr>vga := (VideoMode_write 0x58 0x07 79 0 0 (vga machine_last_column))
                      \<lparr>cursorLocation := \<lparr>vec_x = 0, vec_y = 1\<rparr>\<rparr>\<rparr>)"
  by (simp add: int10_teletype_text [where m = "\<lparr>mode_code = 0x3, mode_w = 80, mode_h = 25, vgaPreset = TEXT_80x25, pages = 0x8\<rparr>"]
      machine_last_column_simps)


subsection \<open>INT 16h\<close>

lemma set_ax_set_ax: "set_ax v (set_ax u r) = set_ax v r"
  by (simp add: set_ax_def)

lemma readKeyState_key_code:
  assumes "T = (case tbl of Some t \<Rightarrow> t | None \<Rightarrow> SCAN_CODES_TABLE K)"
    and "T c \<noteq> Some []"
  shows "readKeyState K tbl (Some c) s =
           Inr (c \<noteq> 0 \<and> T c \<noteq> None,
                s\<lparr>regs := set_ax (key_code T (shift (keymap s)) c) (regs s)\<rparr>)"
proof (cases "c = 0 \<or> T c = None")
  case True
  then show ?thesis
    using assms by (auto simp: readKeyState_def key_code_def Let_def)
next
  case False
  then obtain m where m: "T c = Some m" "m \<noteq> []" "c \<noteq> 0"
    using assms by auto
  then obtain n where n: "length m = Suc n" by (cases m) simp_all
  have idx: "nat (min (int (length m) - 1) (if shift (keymap s) then 1 else 0))
               = (if shift (keymap s) \<and> 1 < length m then 1 else 0)"
    unfolding n by (auto simp: min_def)
  have nonneg: "\<not> min (int (length m) - 1) (if shift (keymap s) then 1 else 0) < 0"
    unfolding n by (auto simp: min_def)
  show ?thesis
    using m assms(1) idx nonneg
    by (simp add: readKeyState_def key_code_def Let_def set_ax_set_ax)
qed

lemma readKeyState_None:
  "readKeyState K tbl None s = Inr (False, s\<lparr>regs := set_ax 0 (regs s)\<rparr>)"
  by (simp add: readKeyState_def)

lemma keyListener_no_key:
  "key (keymap s) = None \<Longrightarrow>
   keyListener K tbl s =
     Inr (s\<lparr>pause := True, keymap := (keymap s)\<lparr>callback := Some (KeyListenerCallback tbl)\<rparr>\<rparr>)"
  by (simp add: keyListener_def)

lemma keyListener_key:
  assumes "T = (case tbl of Some t \<Rightarrow> t | None \<Rightarrow> SCAN_CODES_TABLE K)"
    and "key (keymap s) = Some c" and "isCaseModifyKeycode (Some c)" and "T c \<noteq> Some []"
  shows "keyListener K tbl s =
           Inr (s\<lparr>regs := set_ax (key_code T (shift (keymap s)) c) (regs s),
                   keymap := clearKeyBuffer True (keymap s)\<rparr>)"
  using assms(2,3) readKeyState_key_code [OF assms(1,4), of s]
  by (simp add: keyListener_def deliver_key_def)

lemma keyListener_modifier:
  "key (keymap s) = Some c \<Longrightarrow> \<not> isCaseModifyKeycode (Some c) \<Longrightarrow> keyListener K tbl s = Inr s"
  by (simp add: keyListener_def)

lemma waiting_step:
  assumes "pause s" and "callback (keymap s) = Some (KeyListenerCallback tbl)"
    and "\<not> resumes ev"
  shows "\<exists>s'. run_events K [ev] s = Inr s' \<and> pause s'
           \<and> callback (keymap s') = Some (KeyListenerCallback tbl) \<and> regs s' = regs s"
proof (cases ev)
  case (KeyDown e)
  then show ?thesis
    using assms by (auto simp: keydown_def Let_def)
next
  case KeyUp
  then show ?thesis
    using assms by (simp add: keyup_def clearKeyBuffer_def)
qed

lemma run_events_append_one:
  "run_events K (ev # evs) s =
     (case run_events K [ev] s of Inl err \<Rightarrow> Inl err | Inr s' \<Rightarrow> run_events K evs s')"
  by (cases ev) (auto split: sum.splits)

lemma waiting_events:
  assumes "\<forall>ev \<in> set evs. \<not> resumes ev"
  shows "pause s \<Longrightarrow> callback (keymap s) = Some (KeyListenerCallback tbl) \<Longrightarrow>
         \<exists>s'. run_events K evs s = Inr s' \<and> pause s'
           \<and> callback (keymap s') = Some (KeyListenerCallback tbl) \<and> regs s' = regs s"
  using assms
proof (induction evs arbitrary: s)
  case Nil
  then show ?case by simp
next
  case (Cons ev evs)
  then obtain s1 where s1: "run_events K [ev] s = Inr s1" "pause s1"
    "callback (keymap s1) = Some (KeyListenerCallback tbl)" "regs s1 = regs s"
    using waiting_step [of s tbl ev K] by auto
  from Cons.IH [OF s1(2,3)] Cons.prems(3) obtain s' where
    "run_events K evs s1 = Inr s'" "pause s'"
    "callback (keymap s') = Some (KeyListenerCallback tbl)" "regs s' = regs s1"
    by auto
  with s1 show ?case
    by (subst run_events_append_one) simp
qed

lemma resuming_keydown:
  assumes "T = (case tbl of Some t \<Rightarrow> t | None \<Rightarrow> SCAN_CODES_TABLE K)"
    and "callback (keymap s) = Some (KeyListenerCallback tbl)"
    and "resumes (KeyDown e)" and "T (keyCode e) \<noteq> Some []"
  shows "\<exists>s'. keydown K e s = Inr s' \<and> \<not> pause s'
           \<and> ax (regs s') = key_code T (shiftKey e) (keyCode e)
           \<and> callback (keymap s') = None"
  using assms(2,3)
    readKeyState_key_code [OF assms(1,4), of "s\<lparr>keymap := (keymap s)\<lparr>caps := capsLock e,
        alt := altKey e, ctrl := ctrlKey e, shift := shiftKey e, key := Some (keyCode e)\<rparr>\<rparr>"]
  by (simp add: keydown_def Let_def deliver_key_def clearKeyBuffer_def ax_set_ax)


lemma int16_read_keyListener: "int16_read K = keyListener K None"
  by (rule ext) (simp add: int16_read_def)

lemma int16_read_at_keyListener:
  "int16_read_at K = keyListener K (Some (AT2_SCAN_CODES_QWERTY_PRESSED K))"
  by (rule ext) (simp add: int16_read_at_def)

text \<open>
  C8, as the code has it, for INT 16h AH=0 with the table \<^verbatim>\<open>SCAN_CODES_TABLE\<close> and for
  AH=10h with the table \<^verbatim>\<open>AT2_SCAN_CODES_QWERTY.PRESSED\<close>. Invoked while no key is pressed,
  the handler sets paused=true; paused stays true through every key event that is not a
  key-down of a key other than Shift, Ctrl and Alt with the focus on the document body;
  such a key-down stores the key's code in AX (0 for a key that the table does not hold)
  and clears paused. Invoked while a key other than Shift, Ctrl and Alt is pressed, the
  handler stores its code in AX and leaves paused alone; while Shift, Ctrl or Alt is
  pressed it changes nothing.
\<close>

theorem int16_read_blocks:
  assumes "(h = int16_read K \<and> T = SCAN_CODES_TABLE K)
           \<or> (h = int16_read_at K \<and> T = AT2_SCAN_CODES_QWERTY_PRESSED K)"
  shows "(key (keymap s) = None \<and> (\<forall>ev \<in> set evs. \<not> resumes ev) \<and> resumes (KeyDown e)
            \<and> T (keyCode e) \<noteq> Some []
          \<longrightarrow> (\<exists>s1 s2 s3. h s = Inr s1 \<and> pause s1
                  \<and> run_events K evs s1 = Inr s2 \<and> pause s2 \<and> regs s2 = regs s
                  \<and> keydown K e s2 = Inr s3 \<and> \<not> pause s3
                  \<and> ax (regs s3) = key_code T (shiftKey e) (keyCode e)))
       \<and> (\<forall>c. key (keymap s) = Some c \<and> isCaseModifyKeycode (Some c) \<and> T c \<noteq> Some []
          \<longrightarrow> (\<exists>s'. h s = Inr s' \<and> pause s' = pause s
                  \<and> ax (regs s') = key_code T (shift (keymap s)) c))
       \<and> (\<forall>c. key (keymap s) = Some c \<and> \<not> isCaseModifyKeycode (Some c) \<longrightarrow> h s = Inr s)"
proof -
  obtain tbl where h: "h = keyListener K tbl"
    and T: "T = (case tbl of Some t \<Rightarrow> t | None \<Rightarrow> SCAN_CODES_TABLE K)"
  proof (cases "h = int16_read K \<and> T = SCAN_CODES_TABLE K")
    case True
    then show ?thesis using that [of None] by (simp add: int16_read_keyListener)
  next
    case False
    with assms have "h = int16_read_at K \<and> T = AT2_SCAN_CODES_QWERTY_PRESSED K" by blast
    then show ?thesis
      using that [of "Some (AT2_SCAN_CODES_QWERTY_PRESSED K)"]
      by (simp add: int16_read_at_keyListener)
  qed
  have "\<exists>s1 s2 s3. h s = Inr s1 \<and> pause s1
          \<and> run_events K evs s1 = Inr s2 \<and> pause s2 \<and> regs s2 = regs s
          \<and> keydown K e s2 = Inr s3 \<and> \<not> pause s3
          \<and> ax (regs s3) = key_code T (shiftKey e) (keyCode e)"
    if nokey: "key (keymap s) = None" and quiet: "\<forall>ev \<in> set evs. \<not> resumes ev"
      and res: "resumes (KeyDown e)" and ne: "T (keyCode e) \<noteq> Some []"
  proof -
    let ?s1 = "s\<lparr>pause := True,
                  keymap := (keymap s)\<lparr>callback := Some (KeyListenerCallback tbl)\<rparr>\<rparr>"
    have s1: "h s = Inr ?s1" unfolding h using nokey by (rule keyListener_no_key)
    obtain s2 where s2: "run_events K evs ?s1 = Inr s2" "pause s2"
      "callback (keymap s2) = Some (KeyListenerCallback tbl)" "regs s2 = regs ?s1"
      using waiting_events [OF quiet, of ?s1 tbl K] by auto
    obtain s3 where s3: "keydown K e s2 = Inr s3" "\<not> pause s3"
      "ax (regs s3) = key_code T (shiftKey e) (keyCode e)"
      using resuming_keydown [OF T s2(3) res ne] by auto
    from s1 s2 s3 show ?thesis by auto
  qed
  moreover have "\<exists>s'. h s = Inr s' \<and> pause s' = pause s
          \<and> ax (regs s') = key_code T (shift (keymap s)) c"
    if "key (keymap s) = Some c" "isCaseModifyKeycode (Some c)" "T c \<noteq> Some []" for c
    unfolding h using keyListener_key [OF T that] by (simp add: ax_set_ax)
  moreover have "h s = Inr s"
    if "key (keymap s) = Some c" "\<not> isCaseModifyKeycode (Some c)" for c
    unfolding h using that by (rule keyListener_modifier)
  ultimately show ?thesis by blast
qed

lemma constants0_simps:
  "SCAN_CODES_TABLE constants0 65 = Some [0x1E61, 0x1E41]"
  "SCAN_CODES_TABLE constants0 16 = None"
  by (simp_all add: constants0_def)

text \<open>
  The witness waits through a key-down of Shift and a key-up and is resumed by the key A.
\<close>

theorem int16_read_blocks_witness:
  "(\<exists>s1 s2 s3. int16_read constants0 machine0 = Inr s1 \<and> pause s1
       \<and> run_events constants0 [KeyDown shift_down, KeyUp] s1 = Inr s2 \<and> pause s2
       \<and> regs s2 = regs machine0
       \<and> keydown constants0 key_a_down s2 = Inr s3 \<and> \<not> pause s3 \<and> ax (regs s3) = 0x1E61)
   \<and> (\<exists>s'. int16_read constants0 (machine0\<lparr>keymap := keymap0\<lparr>key := Some 65\<rparr>\<rparr>) = Inr s'
         \<and> pause s' = False \<and> ax (regs s') = 0x1E61)
   \<and> int16_read constants0 (machine0\<lparr>keymap := keymap0\<lparr>key := Some 16\<rparr>\<rparr>)
       = Inr (machine0\<lparr>keymap := keymap0\<lparr>key := Some 16\<rparr>\<rparr>)"
proof -
  have k: "key (keymap machine0) = None" "pause machine0 = False"
    "shift (keymap0\<lparr>key := Some 65\<rparr>) = False"
    by (simp_all add: machine0_def keymap0_def)
  have e: "bodyActive key_a_down" "bodyActive shift_down" "keyCode shift_down = 16"
    "keyCode key_a_down = 65" "shiftKey key_a_down = False"
    by (simp_all add: key_a_down_def shift_down_def)
  have c: "key_code (SCAN_CODES_TABLE constants0) False 65 = 0x1E61"
    "isCaseModifyKeycode (Some 65)" "\<not> isCaseModifyKeycode (Some 16)"
    by (simp_all add: key_code_def constants0_simps isCaseModifyKeycode_def)
  show ?thesis
    using int16_read_blocks [of "int16_read constants0" constants0 "SCAN_CODES_TABLE constants0"
        machine0 "[KeyDown shift_down, KeyUp]" key_a_down]
      int16_read_blocks [of "int16_read constants0" constants0 "SCAN_CODES_TABLE constants0"
        "machine0\<lparr>keymap := keymap0\<lparr>key := Some 65\<rparr>\<rparr>" "[]" key_a_down]
      int16_read_blocks [of "int16_read constants0" constants0 "SCAN_CODES_TABLE constants0"
        "machine0\<lparr>keymap := keymap0\<lparr>key := Some 16\<rparr>\<rparr>" "[]" key_a_down]
    by (simp add: k e c constants0_simps)
qed

text \<open>
  C8 as stated fails: after INT 16h AH=0 has paused the machine, the key-down of Shift
  (key code 16, focus on the body) leaves it paused, and nothing is delivered.
\<close>

theorem int16_read_shift_counterexample:
  "int16_read constants0 machine0 = Inr machine_waiting
   \<and> keydown constants0 shift_down machine_waiting
       = Inr (machine_waiting\<lparr>keymap := (keymap machine_waiting)\<lparr>shift := True, key := Some 16\<rparr>\<rparr>)
   \<and> pause (machine_waiting\<lparr>keymap := (keymap machine_waiting)\<lparr>shift := True, key := Some 16\<rparr>\<rparr>)
       = True"
  by (simp add: int16_read_def keyListener_def keydown_def Let_def machine_waiting_def
      machine0_def keymap0_def shift_down_def isCaseModifyKeycode_def)

text \<open>
  C9. INT 16h AH=1 never pauses. When a key is pressed (key code other than 0) that
  \<^verbatim>\<open>SCAN_CODES_TABLE\<close> maps to a non-empty entry, the handler clears ZF and stores the
  entry's code for the shift state in AX; when no key is pressed or the table does not
  hold the key, it sets ZF and stores 0 in AX.
\<close>

theorem int16_status_reports:
  "(\<forall>c m. key (keymap s) = Some c \<and> c \<noteq> 0 \<and> SCAN_CODES_TABLE K c = Some m \<and> m \<noteq> []
      \<longrightarrow> (\<exists>s'. int16_status K s = Inr s' \<and> pause s' = pause s
              \<and> zf (status (regs s')) = False
              \<and> ax (regs s') = m ! (if shift (keymap s) \<and> 1 < length m then 1 else 0)))
   \<and> (key (keymap s) = None \<or> key (keymap s) = Some 0
        \<or> (\<exists>c. key (keymap s) = Some c \<and> SCAN_CODES_TABLE K c = None)
      \<longrightarrow> (\<exists>s'. int16_status K s = Inr s' \<and> pause s' = pause s
              \<and> zf (status (regs s')) = True \<and> ax (regs s') = 0))"
proof (intro conjI allI impI)
  fix c m
  assume a: "key (keymap s) = Some c \<and> c \<noteq> 0 \<and> SCAN_CODES_TABLE K c = Some m \<and> m \<noteq> []"
  then have "readKeyState K None (Some c) s =
      Inr (True, s\<lparr>regs := set_ax (key_code (SCAN_CODES_TABLE K) (shift (keymap s)) c) (regs s)\<rparr>)"
    using readKeyState_key_code [where T = "SCAN_CODES_TABLE K" and tbl = None and K = K
        and c = c and s = s] by simp
  with a show "\<exists>s'. int16_status K s = Inr s' \<and> pause s' = pause s
              \<and> zf (status (regs s')) = False
              \<and> ax (regs s') = m ! (if shift (keymap s) \<and> 1 < length m then 1 else 0)"
    by (simp add: int16_status_def set_zf_def key_code_def ax_def) (simp add: ax_set_ax flip: ax_def)
next
  assume a: "key (keymap s) = None \<or> key (keymap s) = Some 0
        \<or> (\<exists>c. key (keymap s) = Some c \<and> SCAN_CODES_TABLE K c = None)"
  have "readKeyState K None (key (keymap s)) s = Inr (False, s\<lparr>regs := set_ax 0 (regs s)\<rparr>)"
    using a by (auto simp: readKeyState_def Let_def)
  then show "\<exists>s'. int16_status K s = Inr s' \<and> pause s' = pause s
              \<and> zf (status (regs s')) = True \<and> ax (regs s') = 0"
    by (simp add: int16_status_def set_zf_def ax_def) (simp add: ax_set_ax flip: ax_def)
qed

text \<open>The witness has the key A pressed, and no key pressed.\<close>

theorem int16_status_reports_witness:
  "(\<exists>s'. int16_status constants0 (machine0\<lparr>keymap := keymap0\<lparr>key := Some 65\<rparr>\<rparr>) = Inr s'
       \<and> pause s' = False \<and> zf (status (regs s')) = False \<and> ax (regs s') = 0x1E61)
   \<and> (\<exists>s'. int16_status constants0 machine0 = Inr s'
       \<and> pause s' = False \<and> zf (status (regs s')) = True \<and> ax (regs s') = 0)"
proof -
  have k: "key (keymap machine0) = None" "pause machine0 = False"
    "shift (keymap0\<lparr>key := Some 65\<rparr>) = False"
    by (simp_all add: machine0_def keymap0_def)
  show ?thesis
    using int16_status_reports [of "machine0\<lparr>keymap := keymap0\<lparr>key := Some 65\<rparr>\<rparr>" constants0]
      int16_status_reports [of machine0 constants0]
    by (simp add: k constants0_simps)
qed

end
